theory Spec2Isabelle
  imports Main
begin

section \<open>Values, resource declarations and the deployment stack\<close>

text \<open>
  The program is a Python script that declares cloud resources by calling constructors of
  a provisioning framework. Every constructor call registers one declaration (a type, a
  name, keyword arguments and a parent) with the deployment stack and returns a new
  object. The framework itself is outside the repository: the model records the
  declarations in call order and does not say what the backend later does with them.

  \<open>pv\<close> is the type of the Python values that flow into keyword arguments. \<open>VFloat m e\<close>
  is the float \<open>m * 2 ^ e\<close>; a \<open>VDict\<close> lists the items of a dict in insertion order;
  \<open>VOut i a\<close> is the output attribute \<open>a\<close> of the resource object with identity \<open>i\<close>
  (a value the backend resolves later); \<open>VCall f xs\<close> is the value a library function
  \<open>f\<close> returns for the arguments \<open>xs\<close>, kept symbolic.
\<close>

datatype pv =
    VNone
  | VBool bool
  | VInt int
  | VFloat int int
  | VStr string
  | VList "pv list"
  | VDict "(string \<times> pv) list"
  | VOut nat string
  | VCall string "pv list"

datatype error =
    TypeError string
  | InvokeError string
  | ConfigTypeError string

record resource =
  rid :: nat
  rtype :: string
  rname :: string
  rargs :: "(string \<times> pv) list"
  rparent :: "nat option"

type_synonym stack = "resource list"

text \<open>
  A constructor call \<open>T(name, k1=v1, ..., opts=ResourceOptions(parent=p))\<close>: the new
  object's identity is its position in the stack.
\<close>

definition register ::
  "string \<Rightarrow> string \<Rightarrow> (string \<times> pv) list \<Rightarrow> nat option \<Rightarrow> stack \<Rightarrow> resource \<times> stack" where
  "register t n kwargs parent st =
     (let r = \<lparr>rid = length st, rtype = t, rname = n, rargs = kwargs, rparent = parent\<rparr>
      in (r, st @ [r]))"

text \<open>The keyword argument \<open>k\<close> of a declaration, \<open>None\<close> when it was not passed.\<close>

definition arg :: "resource \<Rightarrow> string \<Rightarrow> pv option" where
  "arg r k = map_of (rargs r) k"

text \<open>A field of a nested argument object (a dict or an \<open>...Args\<close> object).\<close>

definition sub_arg :: "pv option \<Rightarrow> string \<Rightarrow> pv option" where
  "sub_arg v k = (case v of Some (VDict kv) \<Rightarrow> map_of kv k | _ \<Rightarrow> None)"

text \<open>The declarations a call added to the stack it started from.\<close>

definition declared_since :: "stack \<Rightarrow> stack \<Rightarrow> resource list" where
  "declared_since st0 st = drop (length st0) st"

section \<open>config.py: the settings dataclasses\<close>

text \<open>The two settings dataclasses that the components take as arguments.\<close>

record EC2Config =
  ami_id :: pv
  instance_type :: pv
  template_name :: pv
  key_name :: pv

record RDSConfig =
  engine_version :: pv
  max_capacity :: pv
  min_capacity :: pv
  cluster_identifier :: pv
  database_name :: pv
  engine :: pv
  engine_type :: pv
  engine_mode :: pv
  master_username :: pv
  master_password :: pv
  instance_class :: pv
  port :: pv

section \<open>util/ecs\_ec2.py: the compute cluster component\<close>

record Cluster =
  cl_resource_name_prefix :: string
  cl_self :: resource
  cl_security_group :: resource
  ecs_instance_role :: resource
  ecs_instance_role_policy_attach :: resource
  ecs_instance_profile :: resource
  launch_template :: resource
  autoscaling_group :: resource
  cl_cluster :: resource
  capacity_provider :: resource
  cluster_capacity_providers :: resource

text \<open>
  The f-string of lines 121-124 before \<open>textwrap.dedent\<close>: a newline, two lines indented
  by twelve spaces, and the eight spaces before the closing quotes.
\<close>

definition ec2_user_data_text :: "string \<Rightarrow> string" where
  "ec2_user_data_text cluster_name =
     [CHR 0x0A] @ ''            #!/bin/bash'' @
     [CHR 0x0A] @ ''            echo ECS_CLUSTER='' @ cluster_name @ '' >> /etc/ecs/ecs.config'' @
     [CHR 0x0A] @ ''        ''"

definition ec2_assume_role_policy :: pv where
  "ec2_assume_role_policy =
     VCall ''json.dumps'' [VDict [
       (''Version'', VStr ''2012-10-17''),
       (''Statement'', VList [VDict [
          (''Sid'', VStr ''''),
          (''Effect'', VStr ''Allow''),
          (''Principal'', VDict [(''Service'', VStr ''ec2.amazonaws.com'')]),
          (''Action'', VStr ''sts:AssumeRole'')]])]]"

text \<open>
  \<open>Cluster.__init__\<close>. \<open>opts\<close> is the parent named by the caller's resource options, if
  any. Arguments that are only passed through to a declaration (\<open>vpc_id\<close>, the instance
  counts, \<open>subnet_ids\<close>) are values of type \<open>pv\<close>, whatever the caller supplies.
\<close>

definition Cluster_init ::
  "string \<Rightarrow> pv \<Rightarrow> string \<Rightarrow> EC2Config \<Rightarrow> pv \<Rightarrow> pv \<Rightarrow> pv \<Rightarrow> nat option \<Rightarrow> stack
     \<Rightarrow> Cluster \<times> stack" where
  "Cluster_init resource_name_prefix vpc_id cluster_name ec2_config
       max_instance_count min_instance_count subnet_ids opts st0 =
    (let pre = resource_name_prefix @ ''-ecs-cluster'';
         (self, st1) = register ''ind:ecs:Cluster'' pre [] opts st0;
         parent = Some (rid self);
         (security_group, st2) = register ''aws.ec2.SecurityGroup'' (pre @ ''-sg'')
            [(''vpc_id'', vpc_id),
             (''description'', VStr ''Inbound: HTTP from LB. Outbound: Any.'')] parent st1;
         (sg_ingress, st3) = register ''aws.ec2.SecurityGroupRule'' (pre @ ''-sg-ingress'')
            [(''type'', VStr ''ingress''),
             (''from_port'', VInt 80),
             (''to_port'', VInt 80),
             (''protocol'', VStr ''tcp''),
             (''cidr_blocks'', VList [VStr ''0.0.0.0/0'']),
             (''ipv6_cidr_blocks'', VList [VStr ''::/0'']),
             (''security_group_id'', VOut (rid security_group) ''id'')] parent st2;
         (sg_egress, st4) = register ''aws.ec2.SecurityGroupRule'' (pre @ ''-sg-engress'')
            [(''type'', VStr ''egress''),
             (''from_port'', VInt 0),
             (''to_port'', VInt 0),
             (''protocol'', VStr ''-1''),
             (''cidr_blocks'', VList [VStr ''0.0.0.0/0'']),
             (''ipv6_cidr_blocks'', VList [VStr ''::/0'']),
             (''security_group_id'', VOut (rid security_group) ''id'')] parent st3;
         (role, st5) = register ''aws.iam.Role'' (pre @ ''ecs-instance-role'')
            [(''assume_role_policy'', ec2_assume_role_policy)] parent st4;
         (attach, st6) = register ''aws.iam.RolePolicyAttachment''
            (pre @ ''ecs-instance-policy-attach'')
            [(''role'', VOut (rid role) ''name''),
             (''policy_arn'', VStr
                ''arn:aws:iam::aws:policy/service-role/AmazonEC2ContainerServiceforEC2Role'')]
            parent st5;
         (profile, st7) = register ''aws.iam.InstanceProfile''
            (pre @ ''ecs-iam-instance-profile'')
            [(''role'', VOut (rid role) ''name'')] parent st6;
         ec2_user_data = VCall ''base64.b64encode''
            [VCall ''textwrap.dedent'' [VStr (ec2_user_data_text cluster_name)]];
         (template, st8) = register ''aws.ec2.LaunchTemplate'' (pre @ ''launch-template'')
            [(''iam_instance_profile'', VDict [(''arn'', VOut (rid profile) ''arn'')]),
             (''network_interfaces'', VList [VDict [
                (''associate_public_ip_address'', VBool True),
                (''security_groups'', VList [VOut (rid security_group) ''id''])]]),
             (''image_id'', ami_id ec2_config),
             (''instance_type'', instance_type ec2_config),
             (''key_name'', key_name ec2_config),
             (''name'', template_name ec2_config),
             (''user_data'', ec2_user_data)] parent st7;
         (asg, st9) = register ''aws.autoscaling.Group'' (pre @ ''autoscaling_group'')
            [(''desired_capacity'', VInt 0),
             (''min_size'', min_instance_count),
             (''max_size'', max_instance_count),
             (''vpc_zone_identifiers'', subnet_ids),
             (''launch_template'', VDict [
                (''id'', VOut (rid template) ''id''),
                (''version'', VStr ''$Latest'')]),
             (''protect_from_scale_in'', VBool True)] parent st8;
         (cluster, st10) = register ''aws.ecs.Cluster'' (pre @ ''cluster'')
            [(''name'', VStr cluster_name)] parent st9;
         (provider, st11) = register ''aws.ecs.CapacityProvider'' (pre @ ''capacity-provider'')
            [(''auto_scaling_group_provider'', VDict [
                (''auto_scaling_group_arn'', VOut (rid asg) ''arn''),
                (''managed_termination_protection'', VStr ''ENABLED''),
                (''managed_scaling'', VDict [
                   (''maximum_scaling_step_size'', VInt 1000),
                   (''minimum_scaling_step_size'', VInt 1),
                   (''status'', VStr ''ENABLED''),
                   (''target_capacity'', VInt 10)])])] parent st10;
         (providers, st12) = register ''aws.ecs.ClusterCapacityProviders''
            (pre @ ''cluster-capacity-provider'')
            [(''cluster_name'', VOut (rid cluster) ''name''),
             (''capacity_providers'', VList [VOut (rid provider) ''name'']),
             (''default_capacity_provider_strategies'', VList [VDict [
                (''base'', VInt 1),
                (''weight'', VInt 100),
                (''capacity_provider'', VOut (rid provider) ''name'')]])] parent st11
     in (\<lparr>cl_resource_name_prefix = pre,
          cl_self = self,
          cl_security_group = security_group,
          ecs_instance_role = role,
          ecs_instance_role_policy_attach = attach,
          ecs_instance_profile = profile,
          launch_template = template,
          autoscaling_group = asg,
          cl_cluster = cluster,
          capacity_provider = provider,
          cluster_capacity_providers = providers\<rparr>, st12))"

record Service =
  sv_resource_name_prefix :: string
  sv_self :: resource
  service :: resource

definition Service_init ::
  "string \<Rightarrow> pv \<Rightarrow> pv \<Rightarrow> pv \<Rightarrow> pv \<Rightarrow> pv \<Rightarrow> pv \<Rightarrow> pv \<Rightarrow> nat option \<Rightarrow> stack
     \<Rightarrow> Service \<times> stack" where
  "Service_init resource_name_prefix cluster_arn task_definition_arn target_group_arn
       security_group_ids container_name subnet_ids desired_task_count opts st0 =
    (let pre = resource_name_prefix @ ''-ecs-service'';
         (self, st1) = register ''ind:ecs:Service'' pre [] opts st0;
         parent = Some (rid self);
         (svc, st2) = register ''aws.ecs.Service'' (pre @ ''-service'')
            [(''cluster'', cluster_arn),
             (''launch_type'', VStr ''EC2''),
             (''desired_count'', desired_task_count),
             (''task_definition'', task_definition_arn),
             (''network_configuration'', VDict [
                (''assign_public_ip'', VBool False),
                (''subnets'', subnet_ids),
                (''security_groups'', security_group_ids)]),
             (''load_balancers'', VList [VDict [
                (''target_group_arn'', target_group_arn),
                (''container_name'', container_name),
                (''container_port'', VInt 80)]])] parent st1
     in (\<lparr>sv_resource_name_prefix = pre, sv_self = self, service = svc\<rparr>, st2))"

record Task =
  tk_resource_name_prefix :: string
  tk_self :: resource
  task_execution_role :: resource
  task_execution_role_policy_attach :: resource
  task_definition :: resource

definition task_assume_role_policy :: pv where
  "task_assume_role_policy =
     VCall ''json.dumps'' [VDict [
       (''Version'', VStr ''2012-10-17''),
       (''Statement'', VList [VDict [
          (''Sid'', VStr ''''),
          (''Effect'', VStr ''Allow''),
          (''Principal'', VDict [(''Service'', VStr ''ecs-tasks.amazonaws.com'')]),
          (''Action'', VStr ''sts:AssumeRole'')]])]]"

definition Task_init ::
  "string \<Rightarrow> pv \<Rightarrow> pv \<Rightarrow> pv \<Rightarrow> nat option \<Rightarrow> stack \<Rightarrow> Task \<times> stack" where
  "Task_init resource_name_prefix family_name container_name container_image opts st0 =
    (let pre = resource_name_prefix @ ''-ecs-task'';
         (self, st1) = register ''ind:ecs:Task'' pre [] opts st0;
         parent = Some (rid self);
         (role, st2) = register ''aws.iam.Role'' (pre @ ''task-execution-role'')
            [(''assume_role_policy'', task_assume_role_policy)] parent st1;
         (attach, st3) = register ''aws.iam.RolePolicyAttachment''
            (pre @ ''task-excution-policy-attach'')
            [(''role'', VOut (rid role) ''name''),
             (''policy_arn'', VStr
                ''arn:aws:iam::aws:policy/service-role/AmazonECSTaskExecutionRolePolicy'')]
            parent st2;
         (definition_res, st4) = register ''aws.ecs.TaskDefinition'' (pre @ ''-task-definition'')
            [(''family'', family_name),
             (''cpu'', VStr ''256''),
             (''memory'', VStr ''512''),
             (''network_mode'', VStr ''awsvpc''),
             (''requires_compatibilities'', VList [VStr ''EC2'']),
             (''execution_role_arn'', VOut (rid role) ''arn''),
             (''container_definitions'', VCall ''pulumi.Output.json_dumps'' [VList [VDict [
                (''name'', container_name),
                (''image'', container_image),
                (''portMappings'', VList [VDict [
                   (''containerPort'', VInt 80),
                   (''hostPort'', VInt 80),
                   (''protocol'', VStr ''tcp'')]])]]])] parent st3
     in (\<lparr>tk_resource_name_prefix = pre,
          tk_self = self,
          task_execution_role = role,
          task_execution_role_policy_attach = attach,
          task_definition = definition_res\<rparr>, st4))"

section \<open>util/lb.py: the load balancer component\<close>

text \<open>
  What the provider answers to the program's lookups: the names of the availability
  zones in state \<open>available\<close>, the hosted zones by name and the certificates by domain
  (each with the identifier the lookup returns). A lookup with no match raises.
\<close>

record provider =
  available_zone_names :: "string list"
  hosted_zones :: "(string \<times> string) list"
  certificates :: "(string \<times> string) list"

record LoadBalancer =
  lb_resource_name_prefix :: string
  lb_self :: resource
  records :: "resource list"
  target_groups :: "resource list"
  target_group_attachments :: "resource list"
  listeners :: "resource list"
  lb_security_group :: resource
  alb :: resource

definition LoadBalancer_init ::
  "string \<Rightarrow> pv \<Rightarrow> pv \<Rightarrow> nat option \<Rightarrow> stack \<Rightarrow> LoadBalancer \<times> stack" where
  "LoadBalancer_init resource_name_prefix vpc_id subnet_ids opts st0 =
    (let pre = resource_name_prefix @ ''-lb'';
         (self, st1) = register ''ind:network:LoadBalancer'' pre [] opts st0;
         parent = Some (rid self);
         (security_group, st2) = register ''aws.ec2.SecurityGroup'' (pre @ ''-sg'')
            [(''vpc_id'', vpc_id),
             (''description'', VStr ''Inbound: Any HTTPS. Outbound: Any HTTP.'')] parent st1;
         (sg_ingress, st3) = register ''aws.ec2.SecurityGroupRule'' (pre @ ''-sg-ingress'')
            [(''type'', VStr ''ingress''),
             (''from_port'', VInt 443),
             (''to_port'', VInt 443),
             (''protocol'', VStr ''tcp''),
             (''cidr_blocks'', VList [VStr ''0.0.0.0/0'']),
             (''ipv6_cidr_blocks'', VList [VStr ''::/0'']),
             (''security_group_id'', VOut (rid security_group) ''id'')] parent st2;
         (sg_egress, st4) = register ''aws.ec2.SecurityGroupRule'' (pre @ ''-sg-engress'')
            [(''type'', VStr ''egress''),
             (''from_port'', VInt 80),
             (''to_port'', VInt 80),
             (''protocol'', VStr ''tcp''),
             (''cidr_blocks'', VList [VStr ''0.0.0.0/0'']),
             (''ipv6_cidr_blocks'', VList [VStr ''::/0'']),
             (''security_group_id'', VOut (rid security_group) ''id'')] parent st3;
         alb_name = pre @ ''-alb'';
         (balancer, st5) = register ''aws.lb.LoadBalancer'' alb_name
            [(''name'', VStr alb_name),
             (''internal'', VBool False),
             (''load_balancer_type'', VStr ''application''),
             (''security_groups'', VList [VOut (rid security_group) ''id'']),
             (''subnets'', subnet_ids),
             (''idle_timeout'', VInt 600)] parent st4
     in (\<lparr>lb_resource_name_prefix = pre,
          lb_self = self,
          records = [],
          target_groups = [],
          target_group_attachments = [],
          listeners = [],
          lb_security_group = security_group,
          alb = balancer\<rparr>, st5))"

text \<open>
  The three operations mutate the component in place; the model returns the component
  after the call together with the stack. \<open>add_dns_record\<close> returns nothing in the
  source. A failed lookup raises before anything is declared or appended.
\<close>

definition add_dns_record ::
  "provider \<Rightarrow> LoadBalancer \<Rightarrow> string \<Rightarrow> stack \<Rightarrow> error + (LoadBalancer \<times> stack)" where
  "add_dns_record prov self domain_name st =
    (case map_of (hosted_zones prov) domain_name of
       None \<Rightarrow> Inl (InvokeError ''aws.route53.get_zone'')
     | Some hosted_zone_id \<Rightarrow>
        (let (record_res, st1) = register ''aws.route53.Record''
                (lb_resource_name_prefix self @ ''-alb-record'')
                [(''zone_id'', VStr hosted_zone_id),
                 (''name'', VStr domain_name),
                 (''type'', VStr ''A''),
                 (''aliases'', VList [VDict [
                    (''name'', VOut (rid (alb self)) ''dns_name''),
                    (''zone_id'', VOut (rid (alb self)) ''zone_id''),
                    (''evaluate_target_health'', VBool True)]])]
                (Some (rid (lb_self self))) st
         in Inr (self\<lparr>records := records self @ [record_res]\<rparr>, st1)))"

definition add_target_group ::
  "LoadBalancer \<Rightarrow> pv \<Rightarrow> stack \<Rightarrow> resource \<times> LoadBalancer \<times> stack" where
  "add_target_group self health_check_path st =
    (let (target_group, st1) = register ''aws.lb.TargetGroup''
            (lb_resource_name_prefix self @ ''-tg'')
            [(''port'', VInt 80),
             (''protocol'', VStr ''HTTP''),
             (''vpc_id'', VOut (rid (alb self)) ''vpc_id''),
             (''health_check'', VDict [(''path'', health_check_path)]),
             (''target_type'', VStr ''ip'')]
            (Some (rid (lb_self self))) st
     in (target_group, self\<lparr>target_groups := target_groups self @ [target_group]\<rparr>, st1))"

definition add_listener ::
  "provider \<Rightarrow> LoadBalancer \<Rightarrow> string \<Rightarrow> resource \<Rightarrow> stack
     \<Rightarrow> error + (resource \<times> LoadBalancer \<times> stack)" where
  "add_listener prov self certificate_domain target_group st =
    (case map_of (certificates prov) certificate_domain of
       None \<Rightarrow> Inl (InvokeError ''aws.acm.get_certificate'')
     | Some certificate_arn \<Rightarrow>
        (let (listener, st1) = register ''aws.lb.Listener''
                (lb_resource_name_prefix self @ ''-listener'')
                [(''load_balancer_arn'', VOut (rid (alb self)) ''arn''),
                 (''port'', VInt 443),
                 (''protocol'', VStr ''HTTPS''),
                 (''ssl_policy'', VStr ''ELBSecurityPolicy-2016-08''),
                 (''default_actions'', VList [VDict [
                    (''type'', VStr ''forward''),
                    (''target_group_arn'', VOut (rid target_group) ''arn'')]]),
                 (''certificate_arn'', VStr certificate_arn)]
                (Some (rid (lb_self self))) st
         in Inr (listener, self\<lparr>listeners := listeners self @ [listener]\<rparr>, st1)))"

section \<open>util/rds.py: the database component\<close>

record RDS =
  rds_resource_name_prefix :: string
  rds_self :: resource
  rds_security_group :: resource
  subnet_group :: resource
  rds_cluster :: resource
  cluster_instance :: resource

text \<open>
  \<open>RDS.__init__\<close>. The component registers itself under the prefix it was given
  (line 51 passes \<open>resource_name_prefix\<close>, not \<open>self.resource_name_prefix\<close>); its
  children are named from \<open>self.resource_name_prefix\<close>.
\<close>

definition RDS_init ::
  "string \<Rightarrow> RDSConfig \<Rightarrow> pv \<Rightarrow> pv \<Rightarrow> pv \<Rightarrow> nat option \<Rightarrow> stack \<Rightarrow> RDS \<times> stack" where
  "RDS_init resource_name_prefix rds_config vpc_id subnet_ids access_security_groups opts st0 =
    (let pre = resource_name_prefix @ ''-rds'';
         (self, st1) = register ''ind:rds:RDS'' resource_name_prefix [] opts st0;
         parent = Some (rid self);
         (security_group, st2) = register ''aws.ec2.SecurityGroup'' (pre @ ''-sg'')
            [(''vpc_id'', vpc_id),
             (''ingress'', VList [VDict [
                (''from_port'', port rds_config),
                (''to_port'', port rds_config),
                (''protocol'', VStr ''tcp''),
                (''security_groups'', access_security_groups)]])] parent st1;
         (subnets, st3) = register ''aws.rds.SubnetGroup'' (pre @ ''-subnet-group'')
            [(''subnet_ids'', subnet_ids),
             (''tags'', VDict [(''Name'', VStr (pre @ ''-subnet-group''))])] parent st2;
         (cluster, st4) = register ''aws.rds.Cluster'' (pre @ ''-cluster'')
            [(''cluster_identifier'', cluster_identifier rds_config),
             (''database_name'', database_name rds_config),
             (''master_username'', master_username rds_config),
             (''master_password'', master_password rds_config),
             (''engine'', engine rds_config),
             (''engine_mode'', engine_mode rds_config),
             (''engine_version'', engine_version rds_config),
             (''serverlessv2_scaling_configuration'', VDict [
                (''max_capacity'', max_capacity rds_config),
                (''min_capacity'', min_capacity rds_config)]),
             (''db_subnet_group_name'', VOut (rid subnets) ''id''),
             (''vpc_security_group_ids'', VList [VOut (rid security_group) ''id'']),
             (''skip_final_snapshot'', VBool True)] parent st3;
         instance_identifier = pre @ ''-cluster-instance'';
         (instance, st5) = register ''aws.rds.ClusterInstance'' instance_identifier
            [(''cluster_identifier'', VOut (rid cluster) ''id''),
             (''identifier'', VStr instance_identifier),
             (''instance_class'', instance_class rds_config),
             (''engine'', VOut (rid cluster) ''engine''),
             (''engine_version'', VOut (rid cluster) ''engine_version'')] parent st4
     in (\<lparr>rds_resource_name_prefix = pre,
          rds_self = self,
          rds_security_group = security_group,
          subnet_group = subnets,
          rds_cluster = cluster,
          cluster_instance = instance\<rparr>, st5))"

section \<open>config.py: the settings loader\<close>

text \<open>
  The configuration source holds, for every key that is set, the text of its value
  together with what \<open>json.loads\<close> makes of that text (\<open>None\<close> when the text is not
  JSON); the parser is the framework's. \<open>get\<close> returns the text of a set key, a
  string whatever the default's type, and the default for a key that is not set.
  \<open>get_object\<close> returns the parsed value of a set key and the default for a key that
  is not set or whose value is null; it raises when the text does not parse.
\<close>

type_synonym pulumi_config = "(string \<times> string \<times> pv option) list"

definition get :: "pulumi_config \<Rightarrow> string \<Rightarrow> pv \<Rightarrow> pv" where
  "get cfg key dflt =
     (case map_of cfg key of
        None \<Rightarrow> dflt
      | Some (text, parsed) \<Rightarrow> VStr text)"

definition get_object :: "pulumi_config \<Rightarrow> string \<Rightarrow> pv \<Rightarrow> error + pv" where
  "get_object cfg key dflt =
     (case map_of cfg key of
        None \<Rightarrow> Inr dflt
      | Some (text, None) \<Rightarrow> Inl (ConfigTypeError key)
      | Some (text, Some v) \<Rightarrow> if v = VNone then Inr dflt else Inr v)"

text \<open>
  A dataclass is constructed as \<open>C(**d)\<close>: \<open>d\<close> must be a mapping, every key of \<open>d\<close>
  must be a field of the class, and a field that \<open>d\<close> leaves out takes its default.
  Each call raises \<open>TypeError\<close> otherwise. The field types are annotations only; a
  field holds whatever value the mapping gives it.
\<close>

definition kwargs_of :: "pv \<Rightarrow> error + (string \<times> pv) list" where
  "kwargs_of d =
     (case d of
        VDict kw \<Rightarrow> Inr kw
      | _ \<Rightarrow> Inl (TypeError ''argument after ** must be a mapping''))"

definition unexpected_kwargs :: "string list \<Rightarrow> (string \<times> pv) list \<Rightarrow> string list" where
  "unexpected_kwargs allowed kw = filter (\<lambda>k. k \<notin> set allowed) (map fst kw)"

definition field_or :: "(string \<times> pv) list \<Rightarrow> string \<Rightarrow> pv \<Rightarrow> pv" where
  "field_or kw k dflt = (case map_of kw k of Some v \<Rightarrow> v | None \<Rightarrow> dflt)"

record ECSConfig =
  desired_task_count :: pv
  max_instance_count :: pv
  min_instance_count :: pv
  container_name :: pv
  cluster_name :: pv
  task_family_name :: pv

definition ECSConfig_fields :: "string list" where
  "ECSConfig_fields = [''desired_task_count'', ''max_instance_count'', ''min_instance_count'',
     ''container_name'', ''cluster_name'', ''task_family_name'']"

definition ECSConfig_init :: "pv \<Rightarrow> error + ECSConfig" where
  "ECSConfig_init d =
     (case kwargs_of d of
        Inl e \<Rightarrow> Inl e
      | Inr kw \<Rightarrow>
          if unexpected_kwargs ECSConfig_fields kw \<noteq> []
          then Inl (TypeError ''unexpected keyword argument'')
          else Inr \<lparr>desired_task_count = field_or kw ''desired_task_count'' (VInt 1),
                    max_instance_count = field_or kw ''max_instance_count'' (VInt 1),
                    min_instance_count = field_or kw ''min_instance_count'' (VInt 0),
                    container_name = field_or kw ''container_name'' (VStr ''container-main''),
                    cluster_name = field_or kw ''cluster_name'' (VStr ''cluster-main''),
                    task_family_name = field_or kw ''task_family_name'' (VStr ''task-main'')\<rparr>)"

record LBConfig =
  domain_name :: pv
  health_check_path :: pv

definition LBConfig_fields :: "string list" where
  "LBConfig_fields = [''domain_name'', ''health_check_path'']"

text \<open>\<open>domain_name\<close> has no default: leaving it out raises.\<close>

definition LBConfig_init :: "pv \<Rightarrow> error + LBConfig" where
  "LBConfig_init d =
     (case kwargs_of d of
        Inl e \<Rightarrow> Inl e
      | Inr kw \<Rightarrow>
          if unexpected_kwargs LBConfig_fields kw \<noteq> []
          then Inl (TypeError ''unexpected keyword argument'')
          else (case map_of kw ''domain_name'' of
                  None \<Rightarrow> Inl (TypeError ''missing required argument domain_name'')
                | Some dn \<Rightarrow>
                    Inr \<lparr>domain_name = dn,
                         health_check_path = field_or kw ''health_check_path'' (VStr ''/'')\<rparr>))"

definition EC2Config_fields :: "string list" where
  "EC2Config_fields = [''ami_id'', ''instance_type'', ''template_name'', ''key_name'']"

definition EC2Config_init :: "pv \<Rightarrow> error + EC2Config" where
  "EC2Config_init d =
     (case kwargs_of d of
        Inl e \<Rightarrow> Inl e
      | Inr kw \<Rightarrow>
          if unexpected_kwargs EC2Config_fields kw \<noteq> []
          then Inl (TypeError ''unexpected keyword argument'')
          else Inr \<lparr>ami_id = field_or kw ''ami_id'' (VStr ''ami-0bae8df33460eefaa''),
                    instance_type = field_or kw ''instance_type'' (VStr ''t4g.small''),
                    template_name = field_or kw ''template_name'' (VStr ''template-main''),
                    key_name = field_or kw ''key_name'' VNone\<rparr>)"

definition RDSConfig_fields :: "string list" where
  "RDSConfig_fields = [''engine_version'', ''max_capacity'', ''min_capacity'',
     ''cluster_identifier'', ''database_name'', ''engine'', ''engine_type'', ''engine_mode'',
     ''master_username'', ''master_password'', ''instance_class'', ''port'']"

definition RDSConfig_init :: "pv \<Rightarrow> error + RDSConfig" where
  "RDSConfig_init d =
     (case kwargs_of d of
        Inl e \<Rightarrow> Inl e
      | Inr kw \<Rightarrow>
          if unexpected_kwargs RDSConfig_fields kw \<noteq> []
          then Inl (TypeError ''unexpected keyword argument'')
          else Inr \<lparr>engine_version = field_or kw ''engine_version'' (VStr ''8.0.mysql_aurora.3.03.1''),
                    max_capacity = field_or kw ''max_capacity'' (VInt 1),
                    min_capacity = field_or kw ''min_capacity'' (VFloat 1 (- 1)),
                    cluster_identifier = field_or kw ''cluster_identifier'' (VStr ''inductor-cloud''),
                    database_name = field_or kw ''database_name'' (VStr ''inductor''),
                    engine = field_or kw ''engine'' (VStr ''aurora-mysql''),
                    engine_type = field_or kw ''engine_type'' (VStr ''mysql''),
                    engine_mode = field_or kw ''engine_mode'' (VStr ''provisioned''),
                    master_username = field_or kw ''master_username'' (VStr ''inductor''),
                    master_password = field_or kw ''master_password'' (VStr ''inductor''),
                    instance_class = field_or kw ''instance_class'' (VStr ''db.serverless''),
                    port = field_or kw ''port'' (VInt 3306)\<rparr>)"

text \<open>
  The four dataclass instances the module binds (lines 70, 92, 114 and 154), each from
  \<open>get_object\<close> with the default \<open>{}\<close>.
\<close>

definition load_ecs :: "pulumi_config \<Rightarrow> error + ECSConfig" where
  "load_ecs cfg =
     (case get_object cfg ''ecs'' (VDict []) of Inl e \<Rightarrow> Inl e | Inr d \<Rightarrow> ECSConfig_init d)"

definition load_lb :: "pulumi_config \<Rightarrow> error + LBConfig" where
  "load_lb cfg =
     (case get_object cfg ''lb'' (VDict []) of Inl e \<Rightarrow> Inl e | Inr d \<Rightarrow> LBConfig_init d)"

definition load_ecs_ec2 :: "pulumi_config \<Rightarrow> error + EC2Config" where
  "load_ecs_ec2 cfg =
     (case get_object cfg ''ecs_ec2'' (VDict []) of
        Inl e \<Rightarrow> Inl e
      | Inr d \<Rightarrow> EC2Config_init d)"

definition load_rds :: "pulumi_config \<Rightarrow> error + RDSConfig" where
  "load_rds cfg =
     (case get_object cfg ''rds'' (VDict []) of Inl e \<Rightarrow> Inl e | Inr d \<Rightarrow> RDSConfig_init d)"

text \<open>
  The module's top-level bindings, in source order: the module raises at the first
  binding that cannot be evaluated, and nothing after it is bound.
\<close>

record config =
  AWS_REGION :: pv
  RESOURCE_NAME_PREFIX :: pv
  NUMBER_OF_AVAILABILITY_ZONES :: pv
  DOCKER_BUILD_SOURCE :: pv
  ecs :: ECSConfig
  lb :: LBConfig
  ecs_ec2 :: EC2Config
  rds :: RDSConfig

text \<open>
  \<open>os.path.abspath(v)\<close>: the absolute path is kept symbolic; a value that is not a
  string raises \<open>TypeError\<close>.
\<close>

definition py_abspath :: "pv \<Rightarrow> error + pv" where
  "py_abspath v =
     (case v of
        VStr s \<Rightarrow> Inr (VCall ''os.path.abspath'' [VStr s])
      | _ \<Rightarrow> Inl (TypeError ''expected str, bytes or os.PathLike object''))"

definition load_config :: "pulumi_config \<Rightarrow> error + config" where
  "load_config cfg =
     (case py_abspath (get cfg ''docker_build_source'' (VStr ''../backend'')) of
        Inl e \<Rightarrow> Inl e
      | Inr docker_build_source \<Rightarrow>
     (case load_ecs cfg of
        Inl e \<Rightarrow> Inl e
      | Inr ecs_v \<Rightarrow>
     (case load_lb cfg of
        Inl e \<Rightarrow> Inl e
      | Inr lb_v \<Rightarrow>
     (case load_ecs_ec2 cfg of
        Inl e \<Rightarrow> Inl e
      | Inr ecs_ec2_v \<Rightarrow>
     (case load_rds cfg of
        Inl e \<Rightarrow> Inl e
      | Inr rds_v \<Rightarrow>
          Inr \<lparr>AWS_REGION = get cfg ''aws_region'' (VStr ''us-east-1''),
               RESOURCE_NAME_PREFIX = get cfg ''resource_name_prefix'' (VStr ''ind''),
               NUMBER_OF_AVAILABILITY_ZONES = get cfg ''number_of_availability_zones'' (VInt 2),
               DOCKER_BUILD_SOURCE = docker_build_source,
               ecs = ecs_v,
               lb = lb_v,
               ecs_ec2 = ecs_ec2_v,
               rds = rds_v\<rparr>)))))"

section \<open>\_\_main\_\_.py: the entrypoint\<close>

text \<open>
  \<open>xs[:stop]\<close>. A negative stop counts from the end, \<open>None\<close> keeps the whole list, a
  bool is the integer 0 or 1, and any other value raises \<open>TypeError\<close>.
\<close>

definition slice_to_int :: "'a list \<Rightarrow> int \<Rightarrow> 'a list" where
  "slice_to_int xs n =
     (if n < 0 then take (nat (int (length xs) + n)) xs else take (nat n) xs)"

definition py_slice_to :: "'a list \<Rightarrow> pv \<Rightarrow> error + 'a list" where
  "py_slice_to xs stop =
     (case stop of
        VNone \<Rightarrow> Inr xs
      | VInt n \<Rightarrow> Inr (slice_to_int xs n)
      | VBool b \<Rightarrow> Inr (slice_to_int xs (if b then 1 else 0))
      | _ \<Rightarrow> Inl (TypeError ''slice indices must be integers or None''))"

text \<open>\<open>v + "..."\<close> with a string literal on the right: defined for a string \<open>v\<close> only.\<close>

definition py_concat :: "pv \<Rightarrow> string \<Rightarrow> error + string" where
  "py_concat v s =
     (case v of
        VStr p \<Rightarrow> Inr (p @ s)
      | _ \<Rightarrow> Inl (TypeError ''unsupported operand type(s) for +''))"

record Vpc =
  vpc_self :: resource
  vpc_id :: pv
  public_subnet_ids :: "pv list"
  private_subnet_ids :: "pv list"

definition public_subnet_id :: "resource \<Rightarrow> string \<Rightarrow> pv" where
  "public_subnet_id r zone = VOut (rid r) (''public_subnet_id:'' @ zone)"

definition private_subnet_id :: "resource \<Rightarrow> string \<Rightarrow> pv" where
  "private_subnet_id r zone = VOut (rid r) (''private_subnet_id:'' @ zone)"

text \<open>
  Modelled from the spec: the virtual-network class \<open>awsx.ec2.Vpc\<close> belongs to a
  third-party package and is not in the repository. The spec gives its output as one
  public and one private subnet per zone it is given; the subnets and the other
  resources it creates inside are not recorded in the stack.
\<close>

definition Vpc_init :: "string \<Rightarrow> string list \<Rightarrow> pv \<Rightarrow> stack \<Rightarrow> Vpc \<times> stack" where
  "Vpc_init name zone_names nat_gateways st0 =
    (let (self, st1) = register ''awsx.ec2.Vpc'' name
            [(''availability_zone_names'', VList (map VStr zone_names)),
             (''nat_gateways'', nat_gateways)] None st0
     in (\<lparr>vpc_self = self,
          vpc_id = VOut (rid self) ''vpc_id'',
          public_subnet_ids = map (public_subnet_id self) zone_names,
          private_subnet_ids = map (private_subnet_id self) zone_names\<rparr>, st1))"

record Repository =
  repo_self :: resource
  repo_url :: pv

record Image =
  img_self :: resource
  image_uri :: pv

text \<open>
  Modelled from the spec: the classes of the image-build stage, \<open>awsx.ecr.Repository\<close>
  and \<open>awsx.ecr.Image\<close>, belong to the same third-party package and are not in the
  repository. Each is recorded as the one declaration the entrypoint makes (lines 32-37,
  which the source keeps as comments), with the output the later stages read; what it
  creates inside is not recorded in the stack.
\<close>

definition Repository_init :: "string \<Rightarrow> stack \<Rightarrow> Repository \<times> stack" where
  "Repository_init name st0 =
    (let (self, st1) = register ''awsx.ecr.Repository'' name [] None st0
     in (\<lparr>repo_self = self, repo_url = VOut (rid self) ''url''\<rparr>, st1))"

definition Image_init :: "string \<Rightarrow> pv \<Rightarrow> pv \<Rightarrow> stack \<Rightarrow> Image \<times> stack" where
  "Image_init name repository_url path st0 =
    (let (self, st1) = register ''awsx.ecr.Image'' name
            [(''repository_url'', repository_url),
             (''path'', path)] None st0
     in (\<lparr>img_self = self, image_uri = VOut (rid self) ''image_uri''\<rparr>, st1))"

text \<open>
  Lines 13-20, the only stage that is not commented out: the zone names are sliced
  first, then the name of the network is built.
\<close>

definition main_program :: "provider \<Rightarrow> config \<Rightarrow> stack \<Rightarrow> error + (Vpc \<times> stack)" where
  "main_program prov conf st0 =
     (case py_slice_to (available_zone_names prov) (NUMBER_OF_AVAILABILITY_ZONES conf) of
        Inl e \<Rightarrow> Inl e
      | Inr availability_zone_names \<Rightarrow>
     (case py_concat (RESOURCE_NAME_PREFIX conf) ''-vpc'' of
        Inl e \<Rightarrow> Inl e
      | Inr name \<Rightarrow>
          Inr (Vpc_init name availability_zone_names
                 (VDict [(''strategy'', VStr ''None'')]) st0)))"

section \<open>Properties of the compute cluster component\<close>

text \<open>
  C1. The claim: the security group of the compute cluster accepts inbound traffic from
  the load balancer's security group only. The constructor has no load balancer among
  its arguments, and for every construction the one ingress rule it declares (port 80,
  named prefix + \<open>-ecs-cluster-sg-ingress\<close>) lists the address ranges \<open>0.0.0.0/0\<close> and
  \<open>::/0\<close> as its sources and passes no source security group. The comment above the
  rule and the group's description say "from LB".
\<close>

theorem cluster_ingress_admits_any_address:
  "map (\<lambda>r. (rname r, arg r ''from_port'', arg r ''cidr_blocks'', arg r ''ipv6_cidr_blocks'',
             arg r ''source_security_group_id''))
     (filter (\<lambda>r. arg r ''type'' = Some (VStr ''ingress''))
        (declared_since st (snd (Cluster_init p v cn ec mx mn sn opts st))))
   = [(p @ ''-ecs-cluster-sg-ingress'', Some (VInt 80), Some (VList [VStr ''0.0.0.0/0'']),
       Some (VList [VStr ''::/0'']), None)]"
  by (simp add: Cluster_init_def register_def Let_def arg_def declared_since_def)

text \<open>
  C4. For every pair of instance bounds (and every other argument), the capacity
  provider declares managed scaling with target capacity 10, minimum scaling step size
  1 and maximum scaling step size 1000.
\<close>

theorem capacity_provider_managed_scaling:
  "case Cluster_init p v cn ec mx mn sn opts st of (c, st') \<Rightarrow>
     (let ms = sub_arg (arg (capacity_provider c) ''auto_scaling_group_provider'')
                 ''managed_scaling''
      in sub_arg ms ''target_capacity'' = Some (VInt 10) \<and>
         sub_arg ms ''minimum_scaling_step_size'' = Some (VInt 1) \<and>
         sub_arg ms ''maximum_scaling_step_size'' = Some (VInt 1000))"
  by (simp add: Cluster_init_def register_def Let_def arg_def sub_arg_def)

text \<open>
  C8. For every configured minimum and maximum instance count, the auto-scaling group
  is declared with desired capacity 0, with the minimum and maximum it was given, and
  with scale-in protection enabled.
\<close>

theorem autoscaling_group_sizing:
  "case Cluster_init p v cn ec mx mn sn opts st of (c, st') \<Rightarrow>
     arg (autoscaling_group c) ''desired_capacity'' = Some (VInt 0) \<and>
     arg (autoscaling_group c) ''min_size'' = Some mn \<and>
     arg (autoscaling_group c) ''max_size'' = Some mx \<and>
     arg (autoscaling_group c) ''protect_from_scale_in'' = Some (VBool True)"
  by (simp add: Cluster_init_def register_def Let_def arg_def)

text \<open>
  C9. For every construction, the launch template declares exactly one network
  interface, and that interface sets \<open>associate_public_ip_address\<close> to true (and
  places the instance in the cluster's security group). The fleet is launched from
  that template: the auto-scaling group names the template's id (an identity that
  resolves to the template in the stack) at version \<open>$Latest\<close>, and the capacity
  provider is bound to that auto-scaling group. So every instance of the fleet is
  declared with a public IP address, whatever the configuration.
\<close>

theorem launch_template_public_ip:
  "case Cluster_init p v cn ec mx mn sn opts st of (c, st') \<Rightarrow>
     arg (launch_template c) ''network_interfaces'' =
       Some (VList [VDict [
         (''associate_public_ip_address'', VBool True),
         (''security_groups'', VList [VOut (rid (cl_security_group c)) ''id''])]]) \<and>
     arg (autoscaling_group c) ''launch_template'' =
       Some (VDict [(''id'', VOut (rid (launch_template c)) ''id''),
                    (''version'', VStr ''$Latest'')]) \<and>
     rid (launch_template c) < length st' \<and>
     st' ! rid (launch_template c) = launch_template c \<and>
     sub_arg (arg (capacity_provider c) ''auto_scaling_group_provider'')
       ''auto_scaling_group_arn'' = Some (VOut (rid (autoscaling_group c)) ''arn'') \<and>
     rid (autoscaling_group c) < length st' \<and>
     st' ! rid (autoscaling_group c) = autoscaling_group c"
  by (simp add: Cluster_init_def register_def Let_def arg_def sub_arg_def nth_append)

section \<open>Properties of the database component and of the settings loader\<close>

text \<open>
  C5. For every RDS configuration value (and every other argument), the database
  cluster is declared with \<open>skip_final_snapshot\<close> set to true.
\<close>

theorem rds_cluster_skips_final_snapshot:
  "arg (rds_cluster (fst (RDS_init p rc v sn acc opts st))) ''skip_final_snapshot'' =
     Some (VBool True)"
  by (simp add: RDS_init_def register_def Let_def arg_def)

text \<open>
  C6. When the configuration source has no \<open>rds\<close> entry, constructing the RDS settings
  from \<open>get_object("rds", default={})\<close> succeeds and gives a record whose engine is
  \<open>aurora-mysql\<close> and whose port is 3306; whenever the settings module loads, that
  record is its \<open>rds\<close>.
\<close>

theorem rds_defaults_without_override:
  assumes "map_of cfg ''rds'' = None"
  shows "get_object cfg ''rds'' (VDict []) = Inr (VDict []) \<and>
         (\<exists>r. RDSConfig_init (VDict []) = Inr r \<and> load_rds cfg = Inr r \<and>
              engine r = VStr ''aurora-mysql'' \<and> port r = VInt 3306 \<and>
              (\<forall>conf. load_config cfg = Inr conf \<longrightarrow> rds conf = r))"
  using assms
  by (auto simp add: RDSConfig_init_def load_rds_def get_object_def kwargs_of_def
        unexpected_kwargs_def field_or_def load_config_def split: sum.splits)

theorem rds_defaults_without_override_witness:
  "map_of [(''lb'', ''{\"domain_name\": \"example.com\"}'',
            Some (VDict [(''domain_name'', VStr ''example.com'')]))] ''rds'' = None \<and>
   (case load_config [(''lb'', ''{\"domain_name\": \"example.com\"}'',
                       Some (VDict [(''domain_name'', VStr ''example.com'')]))] of
      Inl e \<Rightarrow> False
    | Inr conf \<Rightarrow> engine (rds conf) = VStr ''aurora-mysql'' \<and> port (rds conf) = VInt 3306)"
proof -
  let ?cfg = "[(''lb'', ''{\"domain_name\": \"example.com\"}'',
                Some (VDict [(''domain_name'', VStr ''example.com'')]))]"
  obtain conf where c: "load_config ?cfg = Inr conf"
    by (simp add: load_config_def py_abspath_def load_ecs_def load_lb_def load_ecs_ec2_def
          load_rds_def ECSConfig_init_def LBConfig_init_def EC2Config_init_def
          RDSConfig_init_def get_object_def get_def kwargs_of_def unexpected_kwargs_def
          field_or_def ECSConfig_fields_def LBConfig_fields_def EC2Config_fields_def
          RDSConfig_fields_def)
  from rds_defaults_without_override [of ?cfg] c
  show ?thesis by auto
qed

section \<open>Properties of the load balancer component\<close>

text \<open>
  C7. For every construction of the load balancer component and every pair of
  health-check paths, the two calls of \<open>add_target_group\<close> that follow append two
  entries to the component's target-group list in call order: the list is empty after
  construction, holds the first call's group after the first call, and after the second
  call has length 2 with the first call's group at index 0 and the second call's group
  at index 1. Each call returns the group it appended, the two groups are different
  objects, and each polls the path of its own call. On any instance, whatever its list
  held before, two calls append exactly their two groups, in call order.
\<close>

theorem add_target_group_twice_appends_in_order:
  assumes "LoadBalancer_init p v sn opts st = (b0, s0)"
      and "add_target_group b0 path1 s0 = (g1, b1, s1)"
      and "add_target_group b1 path2 s1 = (g2, b2, s2)"
  shows "target_groups b0 = [] \<and> target_groups b1 = [g1] \<and>
         target_groups b2 = [g1, g2] \<and> length (target_groups b2) = 2 \<and>
         target_groups b2 ! 0 = g1 \<and> target_groups b2 ! 1 = g2 \<and>
         g1 \<noteq> g2 \<and> rid g1 \<noteq> rid g2 \<and>
         sub_arg (arg g1 ''health_check'') ''path'' = Some path1 \<and>
         sub_arg (arg g2 ''health_check'') ''path'' = Some path2 \<and>
         (\<forall>c0 q1 q2 t0 h1 c1 t1 h2 c2 t2.
            add_target_group c0 q1 t0 = (h1, c1, t1) \<longrightarrow>
            add_target_group c1 q2 t1 = (h2, c2, t2) \<longrightarrow>
              target_groups c2 = target_groups c0 @ [h1, h2] \<and> h1 \<noteq> h2)"
proof -
  from assms(1) have e: "target_groups b0 = []"
    by (auto simp add: LoadBalancer_init_def register_def Let_def)
  have gen: "target_groups c2 = target_groups c0 @ [h1, h2] \<and> h1 \<noteq> h2 \<and>
             rid h1 \<noteq> rid h2 \<and> target_groups c1 = target_groups c0 @ [h1] \<and>
             sub_arg (arg h1 ''health_check'') ''path'' = Some q1 \<and>
             sub_arg (arg h2 ''health_check'') ''path'' = Some q2"
    if "add_target_group c0 q1 t0 = (h1, c1, t1)" "add_target_group c1 q2 t1 = (h2, c2, t2)"
    for c0 q1 q2 t0 h1 c1 t1 h2 c2 t2
    using that by (auto simp add: add_target_group_def register_def Let_def arg_def sub_arg_def)
  from gen [OF assms(2) assms(3)] e gen show ?thesis by simp
qed

theorem add_target_group_twice_appends_in_order_witness:
  "(case LoadBalancer_init ''ind'' (VStr ''vpc-0'') (VList [VStr ''subnet-0'']) None [] of
      (b0, s0) \<Rightarrow>
    (case add_target_group b0 (VStr ''/'') s0 of (g1, b1, s1) \<Rightarrow>
    (case add_target_group b1 (VStr ''/'') s1 of (g2, b2, s2) \<Rightarrow>
       target_groups b0 = [] \<and> target_groups b2 = [g1, g2] \<and>
       length (target_groups b2) = 2 \<and> g1 \<noteq> g2 \<and> rid g1 = 5 \<and> rid g2 = 6)))"
proof -
  obtain b0 s0 where h0:
    "LoadBalancer_init ''ind'' (VStr ''vpc-0'') (VList [VStr ''subnet-0'']) None [] = (b0, s0)"
    by (cases "LoadBalancer_init ''ind'' (VStr ''vpc-0'') (VList [VStr ''subnet-0'']) None []")
  obtain g1 b1 s1 where h1: "add_target_group b0 (VStr ''/'') s0 = (g1, b1, s1)"
    by (cases "add_target_group b0 (VStr ''/'') s0")
  obtain g2 b2 s2 where h2: "add_target_group b1 (VStr ''/'') s1 = (g2, b2, s2)"
    by (cases "add_target_group b1 (VStr ''/'') s1")
  from h0 have l: "length s0 = 5"
    by (auto simp add: LoadBalancer_init_def register_def Let_def)
  from h1 l have r1: "rid g1 = 5" and l1: "length s1 = 6"
    by (auto simp add: add_target_group_def register_def Let_def)
  from h2 l1 have r2: "rid g2 = 6"
    by (auto simp add: add_target_group_def register_def Let_def)
  from add_target_group_twice_appends_in_order [OF h0 h1 h2] r1 r2
  show ?thesis by (simp add: h0 h1 h2)
qed

text \<open>
  C10. Each operation of the load balancer component that returns changes exactly one
  of the component's lists, by appending one entry, and leaves every other field as it
  was: \<open>add_dns_record\<close> appends to \<open>records\<close>, \<open>add_target_group\<close> to
  \<open>target_groups\<close> and \<open>add_listener\<close> to \<open>listeners\<close>; the other three lists, the
  security group and the load balancer are unchanged (as are the name prefix and the
  component's own registration).
\<close>

theorem lb_operations_frame:
  "(add_dns_record prov b d s = Inr (b1, s1) \<longrightarrow>
      (\<exists>r. records b1 = records b @ [r] \<and> b1 = b\<lparr>records := records b @ [r]\<rparr>) \<and>
      target_groups b1 = target_groups b \<and>
      target_group_attachments b1 = target_group_attachments b \<and>
      listeners b1 = listeners b \<and>
      lb_security_group b1 = lb_security_group b \<and> alb b1 = alb b) \<and>
   (add_target_group b hp s = (g, b2, s2) \<longrightarrow>
      target_groups b2 = target_groups b @ [g] \<and>
      b2 = b\<lparr>target_groups := target_groups b @ [g]\<rparr> \<and>
      records b2 = records b \<and>
      target_group_attachments b2 = target_group_attachments b \<and>
      listeners b2 = listeners b \<and>
      lb_security_group b2 = lb_security_group b \<and> alb b2 = alb b) \<and>
   (add_listener prov b cd tg s = Inr (l, b3, s3) \<longrightarrow>
      listeners b3 = listeners b @ [l] \<and>
      b3 = b\<lparr>listeners := listeners b @ [l]\<rparr> \<and>
      records b3 = records b \<and>
      target_groups b3 = target_groups b \<and>
      target_group_attachments b3 = target_group_attachments b \<and>
      lb_security_group b3 = lb_security_group b \<and> alb b3 = alb b)"
  by (auto simp add: add_dns_record_def add_target_group_def add_listener_def register_def
        Let_def split: option.splits)

theorem lb_operations_frame_witness:
  "(case LoadBalancer_init ''ind'' (VStr ''vpc-0'') (VList [VStr ''subnet-0'']) None [] of
      (b, s) \<Rightarrow>
    (case add_dns_record
            \<lparr>available_zone_names = [''us-east-1a''],
             hosted_zones = [(''example.com'', ''Z1'')],
             certificates = [(''example.com'', ''arn:cert'')]\<rparr> b ''example.com'' s of
       Inl e \<Rightarrow> False
     | Inr (b1, s1) \<Rightarrow>
         length (records b1) = 1 \<and> target_groups b1 = [] \<and>
         target_group_attachments b1 = [] \<and> listeners b1 = [] \<and>
         lb_security_group b1 = lb_security_group b \<and> alb b1 = alb b) \<and>
    (case add_target_group b (VStr ''/'') s of
       (g, b2, s2) \<Rightarrow>
         target_groups b2 = [g] \<and> records b2 = [] \<and>
         target_group_attachments b2 = [] \<and> listeners b2 = [] \<and>
         lb_security_group b2 = lb_security_group b \<and> alb b2 = alb b \<and>
    (case add_listener
            \<lparr>available_zone_names = [''us-east-1a''],
             hosted_zones = [(''example.com'', ''Z1'')],
             certificates = [(''example.com'', ''arn:cert'')]\<rparr> b ''example.com'' g s of
       Inl e \<Rightarrow> False
     | Inr (l, b3, s3) \<Rightarrow>
         listeners b3 = [l] \<and> records b3 = [] \<and> target_groups b3 = [] \<and>
         target_group_attachments b3 = [] \<and>
         lb_security_group b3 = lb_security_group b \<and> alb b3 = alb b)))"
proof -
  let ?prov = "\<lparr>available_zone_names = [''us-east-1a''],
                hosted_zones = [(''example.com'', ''Z1'')],
                certificates = [(''example.com'', ''arn:cert'')]\<rparr>"
  obtain b s where h0:
    "LoadBalancer_init ''ind'' (VStr ''vpc-0'') (VList [VStr ''subnet-0'']) None [] = (b, s)"
    by (cases "LoadBalancer_init ''ind'' (VStr ''vpc-0'') (VList [VStr ''subnet-0'']) None []")
  from h0 have e: "records b = []" "target_groups b = []" "target_group_attachments b = []"
      "listeners b = []"
    by (auto simp add: LoadBalancer_init_def register_def Let_def)
  obtain b1 s1 where h1: "add_dns_record ?prov b ''example.com'' s = Inr (b1, s1)"
    by (simp add: add_dns_record_def register_def Let_def)
  obtain g b2 s2 where h2: "add_target_group b (VStr ''/'') s = (g, b2, s2)"
    by (cases "add_target_group b (VStr ''/'') s")
  obtain l b3 s3 where h3: "add_listener ?prov b ''example.com'' g s = Inr (l, b3, s3)"
    by (simp add: add_listener_def register_def Let_def)
  from lb_operations_frame
         [of ?prov b "''example.com''" s b1 s1 "VStr ''/''" g b2 s2 "''example.com''" g l b3 s3]
       h1 h2 h3 e
  show ?thesis by (auto simp add: h0)
qed

section \<open>Properties of the entrypoint\<close>

text \<open>What a loaded settings module holds for the values the entrypoint reads.\<close>

lemma load_config_values:
  assumes "load_config cfg = Inr conf"
  shows "NUMBER_OF_AVAILABILITY_ZONES conf = get cfg ''number_of_availability_zones'' (VInt 2)"
    and "RESOURCE_NAME_PREFIX conf = get cfg ''resource_name_prefix'' (VStr ''ind'')"
  using assms by (auto simp add: load_config_def split: sum.splits)

lemma resource_name_prefix_is_str:
  assumes "load_config cfg = Inr conf"
  shows "\<exists>p. RESOURCE_NAME_PREFIX conf = VStr p"
  using load_config_values(2) [OF assms]
  by (auto simp add: get_def split: option.splits)

text \<open>
  The zone count is read with \<open>get\<close> (line 39 of the settings module), so a count that
  is set in the configuration reaches the slice as a string, and the slice raises.
\<close>

lemma configured_zone_count_raises:
  assumes "load_config cfg = Inr conf"
      and "map_of cfg ''number_of_availability_zones'' = Some (text, parsed)"
  shows "main_program prov conf st0 = Inl (TypeError ''slice indices must be integers or None'')"
  using load_config_values(1) [OF assms(1)] assms(2)
  by (simp add: get_def main_program_def py_slice_to_def)

text \<open>
  C3. The claim: for every requested zone count N the network has exactly N public and
  exactly N private subnet identifiers, also when the provider reports fewer than N
  zones. The entrypoint slices the provider's list, and a slice is never longer than
  the list: with the default count 2 and a provider that reports one zone, the network
  has one subnet of each kind.
\<close>

theorem network_fewer_zones_than_requested:
  "(case load_config [(''lb'', ''{\"domain_name\": \"example.com\"}'',
                       Some (VDict [(''domain_name'', VStr ''example.com'')]))] of
      Inl e \<Rightarrow> False
    | Inr conf \<Rightarrow>
        NUMBER_OF_AVAILABILITY_ZONES conf = VInt 2 \<and>
        (case main_program
                \<lparr>available_zone_names = [''us-east-1a''], hosted_zones = [],
                 certificates = []\<rparr> conf [] of
           Inl e \<Rightarrow> False
         | Inr (vpc, st) \<Rightarrow>
             length (public_subnet_ids vpc) = 1 \<and> length (private_subnet_ids vpc) = 1 \<and>
             length (public_subnet_ids vpc) \<noteq> 2 \<and> length (private_subnet_ids vpc) \<noteq> 2))"
  by (simp add: load_config_def py_abspath_def load_ecs_def load_lb_def load_ecs_ec2_def
        load_rds_def ECSConfig_init_def LBConfig_init_def EC2Config_init_def
        RDSConfig_init_def get_object_def get_def kwargs_of_def unexpected_kwargs_def
        field_or_def ECSConfig_fields_def LBConfig_fields_def EC2Config_fields_def
        RDSConfig_fields_def main_program_def py_slice_to_def slice_to_int_def py_concat_def
        Vpc_init_def register_def Let_def)

text \<open>
  C3, as amended. With the zone count left at its default (no
  \<open>number_of_availability_zones\<close> in the configuration, so N = 2) and the settings
  module loaded, the entrypoint returns: it hands the first 2 of the provider's
  available zones to the network, and the network has one public and one private
  subnet identifier per zone taken, in zone order. That is 2 of each when the provider
  reports at least 2 zones, and one of each per reported zone when it reports fewer.
\<close>

theorem network_subnets_per_zone_taken:
  assumes "load_config cfg = Inr conf"
      and "map_of cfg ''number_of_availability_zones'' = None"
  shows "\<exists>vpc st. main_program prov conf st0 = Inr (vpc, st) \<and>
           arg (vpc_self vpc) ''availability_zone_names'' =
             Some (VList (map VStr (take 2 (available_zone_names prov)))) \<and>
           public_subnet_ids vpc =
             map (public_subnet_id (vpc_self vpc)) (take 2 (available_zone_names prov)) \<and>
           private_subnet_ids vpc =
             map (private_subnet_id (vpc_self vpc)) (take 2 (available_zone_names prov)) \<and>
           length (public_subnet_ids vpc) = min 2 (length (available_zone_names prov)) \<and>
           length (private_subnet_ids vpc) = min 2 (length (available_zone_names prov))"
proof -
  from load_config_values(1) [OF assms(1)] assms(2)
  have n: "NUMBER_OF_AVAILABILITY_ZONES conf = VInt 2"
    by (simp add: get_def)
  from resource_name_prefix_is_str [OF assms(1)]
  obtain p where p: "RESOURCE_NAME_PREFIX conf = VStr p" ..
  from n p show ?thesis
    by (simp add: main_program_def py_slice_to_def slice_to_int_def py_concat_def
          Vpc_init_def register_def Let_def arg_def min.commute)
qed

theorem network_subnets_per_zone_taken_witness:
  "map_of [(''lb'', ''{\"domain_name\": \"example.com\"}'',
            Some (VDict [(''domain_name'', VStr ''example.com'')]))]
     ''number_of_availability_zones'' = None \<and>
   (case load_config [(''lb'', ''{\"domain_name\": \"example.com\"}'',
                       Some (VDict [(''domain_name'', VStr ''example.com'')]))] of
      Inl e \<Rightarrow> False
    | Inr conf \<Rightarrow>
        (case main_program
                \<lparr>available_zone_names = [''us-east-1a'', ''us-east-1b'', ''us-east-1c''],
                 hosted_zones = [], certificates = []\<rparr> conf [] of
           Inl e \<Rightarrow> False
         | Inr (vpc, st) \<Rightarrow>
             length (public_subnet_ids vpc) = 2 \<and> length (private_subnet_ids vpc) = 2))"
proof -
  let ?cfg = "[(''lb'', ''{\"domain_name\": \"example.com\"}'',
                Some (VDict [(''domain_name'', VStr ''example.com'')]))]"
  let ?prov = "\<lparr>available_zone_names = [''us-east-1a'', ''us-east-1b'', ''us-east-1c''],
                hosted_zones = [], certificates = []\<rparr>"
  obtain conf where c: "load_config ?cfg = Inr conf"
    by (simp add: load_config_def py_abspath_def load_ecs_def load_lb_def load_ecs_ec2_def
          load_rds_def ECSConfig_init_def LBConfig_init_def EC2Config_init_def
          RDSConfig_init_def get_object_def get_def kwargs_of_def unexpected_kwargs_def
          field_or_def ECSConfig_fields_def LBConfig_fields_def EC2Config_fields_def
          RDSConfig_fields_def)
  have u: "map_of ?cfg ''number_of_availability_zones'' = None"
    by simp
  from network_subnets_per_zone_taken [OF c u, of ?prov "[]"]
  obtain vpc st where "main_program ?prov conf [] = Inr (vpc, st)"
    and "length (public_subnet_ids vpc) = 2" and "length (private_subnet_ids vpc) = 2"
    by auto
  with c show ?thesis by simp
qed

section \<open>Resource names within one stack\<close>

text \<open>What each constructor and operation declares: the types and names, in order.\<close>

lemma decls_main_program:
  assumes "main_program prov conf st = Inr (vpc, st')" and "RESOURCE_NAME_PREFIX conf = VStr p"
  shows "map (\<lambda>r. (rtype r, rname r)) st' =
           map (\<lambda>r. (rtype r, rname r)) st @ [(''awsx.ec2.Vpc'', p @ ''-vpc'')]"
  using assms
  by (auto simp add: main_program_def py_concat_def Vpc_init_def register_def Let_def
        split: sum.splits)

lemma decls_LoadBalancer_init:
  assumes "LoadBalancer_init p a1 a2 opts st = (b, st')"
  shows "map (\<lambda>r. (rtype r, rname r)) st' =
           map (\<lambda>r. (rtype r, rname r)) st @
           [(''ind:network:LoadBalancer'', p @ ''-lb''),
            (''aws.ec2.SecurityGroup'', p @ ''-lb-sg''),
            (''aws.ec2.SecurityGroupRule'', p @ ''-lb-sg-ingress''),
            (''aws.ec2.SecurityGroupRule'', p @ ''-lb-sg-engress''),
            (''aws.lb.LoadBalancer'', p @ ''-lb-alb'')] \<and>
         lb_resource_name_prefix b = p @ ''-lb''"
  using assms by (auto simp add: LoadBalancer_init_def register_def Let_def)

lemma decls_add_dns_record:
  assumes "add_dns_record prov b d st = Inr (b', st')"
  shows "map (\<lambda>r. (rtype r, rname r)) st' =
           map (\<lambda>r. (rtype r, rname r)) st @
           [(''aws.route53.Record'', lb_resource_name_prefix b @ ''-alb-record'')] \<and>
         lb_resource_name_prefix b' = lb_resource_name_prefix b"
  using assms
  by (auto simp add: add_dns_record_def register_def Let_def split: option.splits)

lemma decls_add_target_group:
  assumes "add_target_group b hp st = (g, b', st')"
  shows "map (\<lambda>r. (rtype r, rname r)) st' =
           map (\<lambda>r. (rtype r, rname r)) st @
           [(''aws.lb.TargetGroup'', lb_resource_name_prefix b @ ''-tg'')] \<and>
         lb_resource_name_prefix b' = lb_resource_name_prefix b"
  using assms by (auto simp add: add_target_group_def register_def Let_def)

lemma decls_add_listener:
  assumes "add_listener prov b cd tg st = Inr (l, b', st')"
  shows "map (\<lambda>r. (rtype r, rname r)) st' =
           map (\<lambda>r. (rtype r, rname r)) st @
           [(''aws.lb.Listener'', lb_resource_name_prefix b @ ''-listener'')] \<and>
         lb_resource_name_prefix b' = lb_resource_name_prefix b"
  using assms
  by (auto simp add: add_listener_def register_def Let_def split: option.splits)

lemma decls_Cluster_init:
  assumes "Cluster_init p v cn ec mx mn sn opts st = (c, st')"
  shows "map (\<lambda>r. (rtype r, rname r)) st' =
           map (\<lambda>r. (rtype r, rname r)) st @
           [(''ind:ecs:Cluster'', p @ ''-ecs-cluster''),
            (''aws.ec2.SecurityGroup'', p @ ''-ecs-cluster-sg''),
            (''aws.ec2.SecurityGroupRule'', p @ ''-ecs-cluster-sg-ingress''),
            (''aws.ec2.SecurityGroupRule'', p @ ''-ecs-cluster-sg-engress''),
            (''aws.iam.Role'', p @ ''-ecs-clusterecs-instance-role''),
            (''aws.iam.RolePolicyAttachment'', p @ ''-ecs-clusterecs-instance-policy-attach''),
            (''aws.iam.InstanceProfile'', p @ ''-ecs-clusterecs-iam-instance-profile''),
            (''aws.ec2.LaunchTemplate'', p @ ''-ecs-clusterlaunch-template''),
            (''aws.autoscaling.Group'', p @ ''-ecs-clusterautoscaling_group''),
            (''aws.ecs.Cluster'', p @ ''-ecs-clustercluster''),
            (''aws.ecs.CapacityProvider'', p @ ''-ecs-clustercapacity-provider''),
            (''aws.ecs.ClusterCapacityProviders'', p @ ''-ecs-clustercluster-capacity-provider'')]"
  using assms by (auto simp add: Cluster_init_def register_def Let_def)

lemma decls_Task_init:
  assumes "Task_init p fam cn img opts st = (t, st')"
  shows "map (\<lambda>r. (rtype r, rname r)) st' =
           map (\<lambda>r. (rtype r, rname r)) st @
           [(''ind:ecs:Task'', p @ ''-ecs-task''),
            (''aws.iam.Role'', p @ ''-ecs-tasktask-execution-role''),
            (''aws.iam.RolePolicyAttachment'', p @ ''-ecs-tasktask-excution-policy-attach''),
            (''aws.ecs.TaskDefinition'', p @ ''-ecs-task-task-definition'')]"
  using assms by (auto simp add: Task_init_def register_def Let_def)

lemma decls_Service_init:
  assumes "Service_init p ca ta tga sgs cn sn cnt opts st = (sv, st')"
  shows "map (\<lambda>r. (rtype r, rname r)) st' =
           map (\<lambda>r. (rtype r, rname r)) st @
           [(''ind:ecs:Service'', p @ ''-ecs-service''),
            (''aws.ecs.Service'', p @ ''-ecs-service-service'')]"
  using assms by (auto simp add: Service_init_def register_def Let_def)

lemma decls_RDS_init:
  assumes "RDS_init p rc v sn acc opts st = (db, st')"
  shows "map (\<lambda>r. (rtype r, rname r)) st' =
           map (\<lambda>r. (rtype r, rname r)) st @
           [(''ind:rds:RDS'', p),
            (''aws.ec2.SecurityGroup'', p @ ''-rds-sg''),
            (''aws.rds.SubnetGroup'', p @ ''-rds-subnet-group''),
            (''aws.rds.Cluster'', p @ ''-rds-cluster''),
            (''aws.rds.ClusterInstance'', p @ ''-rds-cluster-instance'')]"
  using assms by (auto simp add: RDS_init_def register_def Let_def)

lemma decls_Repository_init:
  assumes "Repository_init n st = (x, st')"
  shows "map (\<lambda>r. (rtype r, rname r)) st' =
           map (\<lambda>r. (rtype r, rname r)) st @ [(''awsx.ecr.Repository'', n)]"
  using assms by (auto simp add: Repository_init_def register_def Let_def)

lemma decls_Image_init:
  assumes "Image_init n ru pa st = (x, st')"
  shows "map (\<lambda>r. (rtype r, rname r)) st' =
           map (\<lambda>r. (rtype r, rname r)) st @ [(''awsx.ecr.Image'', n)]"
  using assms by (auto simp add: Image_init_def register_def Let_def)

lemma names_of_decls: "map rname st = map snd (map (\<lambda>r. (rtype r, rname r)) st)"
  by (simp add: comp_def)

lemma filtered_names_of_decls:
  "map rname (filter (\<lambda>r. rtype r \<noteq> t) st) =
     map snd (filter (\<lambda>d. fst d \<noteq> t) (map (\<lambda>r. (rtype r, rname r)) st))"
  by (induction st) auto

text \<open>The name each operation of the load balancer gives to what it declares.\<close>

lemma add_dns_record_name:
  assumes "add_dns_record prov c d t = Inr (c', t')"
  shows "\<exists>r. rname r = lb_resource_name_prefix c @ ''-alb-record'' \<and> t' = t @ [r]"
  using assms
  by (auto simp add: add_dns_record_def register_def Let_def split: option.splits)

lemma add_target_group_name:
  assumes "add_target_group c h t = (g, c', t')"
  shows "rname g = lb_resource_name_prefix c @ ''-tg'' \<and> t' = t @ [g]"
  using assms by (auto simp add: add_target_group_def register_def Let_def)

lemma add_listener_name:
  assumes "add_listener prov c k g0 t = Inr (l, c', t')"
  shows "rname l = lb_resource_name_prefix c @ ''-listener'' \<and> t' = t @ [l]"
  using assms
  by (auto simp add: add_listener_def register_def Let_def split: option.splits)

lemma name_declared_again:
  assumes "rname r \<in> set (map rname s)" and "set s \<subseteq> set t"
  shows "\<not> distinct (map rname (t @ [r]))"
  using assms by auto

text \<open>
  C2. The claim: all resource names of one stack are pairwise distinct, also when an
  operation of the load balancer component is invoked more than once on the same
  instance. Each operation names its resource by a fixed suffix, so a second call of
  \<open>add_target_group\<close> declares a second target group under the name of the first.
\<close>

theorem add_target_group_twice_reuses_name:
  "(case LoadBalancer_init ''ind'' (VStr ''vpc-0'') (VList [VStr ''subnet-0'']) None [] of
      (b0, s0) \<Rightarrow>
    (case add_target_group b0 (VStr ''/'') s0 of (g1, b1, s1) \<Rightarrow>
    (case add_target_group b1 (VStr ''/health'') s1 of (g2, b2, s2) \<Rightarrow>
       rname g1 = ''ind-lb-tg'' \<and> rname g2 = ''ind-lb-tg'' \<and> rid g1 \<noteq> rid g2 \<and>
       \<not> distinct (map rname s2))))"
  by (simp add: LoadBalancer_init_def add_target_group_def register_def Let_def)

text \<open>
  C2, as amended. In a stack built by the entrypoint's stages run once each with the
  configured prefix (the network, the load balancer with one DNS record, one target
  group and one listener, the image repository and the image, the cluster, the task,
  the service, the database), the names of the declarations the program makes are
  pairwise distinct, and every one of them other than the database component's own
  registration is the prefix followed by a suffix of its own, as listed. Every further
  call of \<open>add_dns_record\<close>, \<open>add_target_group\<close> or \<open>add_listener\<close> on the same
  load balancer instance declares its resource under the name the first call used, so
  the names of the stack are then no longer distinct.
\<close>

theorem stack_names_prefixed_distinct_single_use:
  assumes load: "load_config cfg = Inr conf"
    and conf: "RESOURCE_NAME_PREFIX conf = VStr p"
    and s0: "main_program prov conf [] = Inr (vpc, s0)"
    and s1: "LoadBalancer_init p v1 sn1 o1 s0 = (b1, s1)"
    and s2: "add_dns_record prov b1 dn s1 = Inr (b2, s2)"
    and s3: "add_target_group b2 hp s2 = (tg, b3, s3)"
    and s4: "add_listener prov b3 cd tg0 s3 = Inr (ls, b4, s4)"
    and e1: "Repository_init (p @ ''-repository'') s4 = (repo, s4a)"
    and e2: "Image_init (p @ ''-image'') ru pa s4a = (img, s4b)"
    and s5: "Cluster_init p v2 cn ec mx mn sn2 o2 s4b = (cl, s5)"
    and s6: "Task_init p fam ctn im o3 s5 = (tk, s6)"
    and s7: "Service_init p ca ta tga sgs ctn2 sn3 cnt o4 s6 = (sv, s7)"
    and s8: "RDS_init p rc v3 sn4 acc o5 s7 = (db, s8)"
  shows "distinct (map rname s8) \<and>
         map rname (filter (\<lambda>r. rtype r \<noteq> ''ind:rds:RDS'') s8) = map ((@) p)
           [''-vpc'',
            ''-lb'', ''-lb-sg'', ''-lb-sg-ingress'', ''-lb-sg-engress'', ''-lb-alb'',
            ''-lb-alb-record'', ''-lb-tg'', ''-lb-listener'',
            ''-repository'', ''-image'',
            ''-ecs-cluster'', ''-ecs-cluster-sg'', ''-ecs-cluster-sg-ingress'',
            ''-ecs-cluster-sg-engress'', ''-ecs-clusterecs-instance-role'',
            ''-ecs-clusterecs-instance-policy-attach'', ''-ecs-clusterecs-iam-instance-profile'',
            ''-ecs-clusterlaunch-template'', ''-ecs-clusterautoscaling_group'',
            ''-ecs-clustercluster'', ''-ecs-clustercapacity-provider'',
            ''-ecs-clustercluster-capacity-provider'',
            ''-ecs-task'', ''-ecs-tasktask-execution-role'',
            ''-ecs-tasktask-excution-policy-attach'', ''-ecs-task-task-definition'',
            ''-ecs-service'', ''-ecs-service-service'',
            ''-rds-sg'', ''-rds-subnet-group'', ''-rds-cluster'', ''-rds-cluster-instance''] \<and>
         (\<forall>pr c t. lb_resource_name_prefix c = lb_resource_name_prefix b4 \<longrightarrow>
                   set s8 \<subseteq> set t \<longrightarrow>
            (\<forall>d c' t'. add_dns_record pr c d t = Inr (c', t') \<longrightarrow>
                \<not> distinct (map rname t')) \<and>
            (\<forall>h g c' t'. add_target_group c h t = (g, c', t') \<longrightarrow>
                rname g = rname tg \<and> \<not> distinct (map rname t')) \<and>
            (\<forall>k g0 l c' t'. add_listener pr c k g0 t = Inr (l, c', t') \<longrightarrow>
                rname l = rname ls \<and> \<not> distinct (map rname t')))"
proof -
  note d0 = decls_main_program [OF s0 conf]
  note d1 = decls_LoadBalancer_init [OF s1]
  note d2 = decls_add_dns_record [OF s2]
  note d3 = decls_add_target_group [OF s3]
  note d4 = decls_add_listener [OF s4]
  note x1 = decls_Repository_init [OF e1]
  note x2 = decls_Image_init [OF e2]
  note d5 = decls_Cluster_init [OF s5]
  note d6 = decls_Task_init [OF s6]
  note d7 = decls_Service_init [OF s7]
  note d8 = decls_RDS_init [OF s8]
  have all: "map (\<lambda>r. (rtype r, rname r)) s8 =
     [(''awsx.ec2.Vpc'', p @ ''-vpc''),
      (''ind:network:LoadBalancer'', p @ ''-lb''),
      (''aws.ec2.SecurityGroup'', p @ ''-lb-sg''),
      (''aws.ec2.SecurityGroupRule'', p @ ''-lb-sg-ingress''),
      (''aws.ec2.SecurityGroupRule'', p @ ''-lb-sg-engress''),
      (''aws.lb.LoadBalancer'', p @ ''-lb-alb''),
      (''aws.route53.Record'', p @ ''-lb-alb-record''),
      (''aws.lb.TargetGroup'', p @ ''-lb-tg''),
      (''aws.lb.Listener'', p @ ''-lb-listener''),
      (''awsx.ecr.Repository'', p @ ''-repository''),
      (''awsx.ecr.Image'', p @ ''-image''),
      (''ind:ecs:Cluster'', p @ ''-ecs-cluster''),
      (''aws.ec2.SecurityGroup'', p @ ''-ecs-cluster-sg''),
      (''aws.ec2.SecurityGroupRule'', p @ ''-ecs-cluster-sg-ingress''),
      (''aws.ec2.SecurityGroupRule'', p @ ''-ecs-cluster-sg-engress''),
      (''aws.iam.Role'', p @ ''-ecs-clusterecs-instance-role''),
      (''aws.iam.RolePolicyAttachment'', p @ ''-ecs-clusterecs-instance-policy-attach''),
      (''aws.iam.InstanceProfile'', p @ ''-ecs-clusterecs-iam-instance-profile''),
      (''aws.ec2.LaunchTemplate'', p @ ''-ecs-clusterlaunch-template''),
      (''aws.autoscaling.Group'', p @ ''-ecs-clusterautoscaling_group''),
      (''aws.ecs.Cluster'', p @ ''-ecs-clustercluster''),
      (''aws.ecs.CapacityProvider'', p @ ''-ecs-clustercapacity-provider''),
      (''aws.ecs.ClusterCapacityProviders'', p @ ''-ecs-clustercluster-capacity-provider''),
      (''ind:ecs:Task'', p @ ''-ecs-task''),
      (''aws.iam.Role'', p @ ''-ecs-tasktask-execution-role''),
      (''aws.iam.RolePolicyAttachment'', p @ ''-ecs-tasktask-excution-policy-attach''),
      (''aws.ecs.TaskDefinition'', p @ ''-ecs-task-task-definition''),
      (''ind:ecs:Service'', p @ ''-ecs-service''),
      (''aws.ecs.Service'', p @ ''-ecs-service-service''),
      (''ind:rds:RDS'', p),
      (''aws.ec2.SecurityGroup'', p @ ''-rds-sg''),
      (''aws.rds.SubnetGroup'', p @ ''-rds-subnet-group''),
      (''aws.rds.Cluster'', p @ ''-rds-cluster''),
      (''aws.rds.ClusterInstance'', p @ ''-rds-cluster-instance'')]"
    by (simp add: d0 d1 d2 d3 d4 x1 x2 d5 d6 d7 d8)
  have dist: "distinct (map rname s8)"
    unfolding names_of_decls all by simp
  have names: "map rname (filter (\<lambda>r. rtype r \<noteq> ''ind:rds:RDS'') s8) = map ((@) p)
           [''-vpc'',
            ''-lb'', ''-lb-sg'', ''-lb-sg-ingress'', ''-lb-sg-engress'', ''-lb-alb'',
            ''-lb-alb-record'', ''-lb-tg'', ''-lb-listener'',
            ''-repository'', ''-image'',
            ''-ecs-cluster'', ''-ecs-cluster-sg'', ''-ecs-cluster-sg-ingress'',
            ''-ecs-cluster-sg-engress'', ''-ecs-clusterecs-instance-role'',
            ''-ecs-clusterecs-instance-policy-attach'', ''-ecs-clusterecs-iam-instance-profile'',
            ''-ecs-clusterlaunch-template'', ''-ecs-clusterautoscaling_group'',
            ''-ecs-clustercluster'', ''-ecs-clustercapacity-provider'',
            ''-ecs-clustercluster-capacity-provider'',
            ''-ecs-task'', ''-ecs-tasktask-execution-role'',
            ''-ecs-tasktask-excution-policy-attach'', ''-ecs-task-task-definition'',
            ''-ecs-service'', ''-ecs-service-service'',
            ''-rds-sg'', ''-rds-subnet-group'', ''-rds-cluster'', ''-rds-cluster-instance'']"
    unfolding filtered_names_of_decls all by simp
  have pre: "lb_resource_name_prefix b4 = p @ ''-lb''"
    "lb_resource_name_prefix b2 = p @ ''-lb''" "lb_resource_name_prefix b3 = p @ ''-lb''"
    using d1 d2 d3 d4 by simp_all
  have tgn: "rname tg = p @ ''-lb-tg''"
    using add_target_group_name [OF s3] pre by simp
  have lsn: "rname ls = p @ ''-lb-listener''"
    using add_listener_name [OF s4] pre by simp
  have mem: "p @ ''-lb-alb-record'' \<in> set (map rname s8)"
    "p @ ''-lb-tg'' \<in> set (map rname s8)" "p @ ''-lb-listener'' \<in> set (map rname s8)"
    unfolding names_of_decls all by simp_all
  have again: "(\<forall>d c' t'. add_dns_record pr c d t = Inr (c', t') \<longrightarrow>
                  \<not> distinct (map rname t')) \<and>
               (\<forall>h g c' t'. add_target_group c h t = (g, c', t') \<longrightarrow>
                  rname g = rname tg \<and> \<not> distinct (map rname t')) \<and>
               (\<forall>k g0 l c' t'. add_listener pr c k g0 t = Inr (l, c', t') \<longrightarrow>
                  rname l = rname ls \<and> \<not> distinct (map rname t'))"
    if c: "lb_resource_name_prefix c = lb_resource_name_prefix b4" and t: "set s8 \<subseteq> set t"
    for pr c t
  proof (intro conjI allI impI)
    fix d c' t' assume "add_dns_record pr c d t = Inr (c', t')"
    from add_dns_record_name [OF this] obtain r
      where r: "rname r = lb_resource_name_prefix c @ ''-alb-record''" "t' = t @ [r]"
      by blast
    from r(1) c pre have "rname r \<in> set (map rname s8)" using mem(1) by simp
    from name_declared_again [OF this t] r(2) show "\<not> distinct (map rname t')" by simp
  next
    fix h g c' t' assume a: "add_target_group c h t = (g, c', t')"
    from add_target_group_name [OF a] c pre
    have g: "rname g = p @ ''-lb-tg''" "t' = t @ [g]" by simp_all
    from g(1) tgn show "rname g = rname tg" by simp
    from g(1) have "rname g \<in> set (map rname s8)" using mem(2) by simp
    from name_declared_again [OF this t] g(2) show "\<not> distinct (map rname t')" by simp
  next
    fix k g0 l c' t' assume a: "add_listener pr c k g0 t = Inr (l, c', t')"
    from add_listener_name [OF a] c pre
    have l: "rname l = p @ ''-lb-listener''" "t' = t @ [l]" by simp_all
    from l(1) lsn show "rname l = rname ls" by simp
    from l(1) have "rname l \<in> set (map rname s8)" using mem(3) by simp
    from name_declared_again [OF this t] l(2) show "\<not> distinct (map rname t')" by simp
  qed
  from dist names again show ?thesis by blast
qed

theorem stack_names_prefixed_distinct_single_use_witness:
  "(case load_config [(''lb'', ''{\"domain_name\": \"example.com\"}'',
                       Some (VDict [(''domain_name'', VStr ''example.com'')]))] of
      Inl e \<Rightarrow> False
    | Inr conf \<Rightarrow>
    RESOURCE_NAME_PREFIX conf = VStr ''ind'' \<and>
    (case main_program
            \<lparr>available_zone_names = [''us-east-1a'', ''us-east-1b''],
             hosted_zones = [(''example.com'', ''Z1'')],
             certificates = [(''example.com'', ''arn:cert'')]\<rparr> conf [] of
       Inl e \<Rightarrow> False
     | Inr (vpc, s0) \<Rightarrow>
    (case LoadBalancer_init ''ind'' (vpc_id vpc) (VList (public_subnet_ids vpc)) None s0 of
       (b1, s1) \<Rightarrow>
    (case add_dns_record
            \<lparr>available_zone_names = [''us-east-1a'', ''us-east-1b''],
             hosted_zones = [(''example.com'', ''Z1'')],
             certificates = [(''example.com'', ''arn:cert'')]\<rparr> b1 ''example.com'' s1 of
       Inl e \<Rightarrow> False
     | Inr (b2, s2) \<Rightarrow>
    (case add_target_group b2 (health_check_path (lb conf)) s2 of
       (tg, b3, s3) \<Rightarrow>
    (case add_listener
            \<lparr>available_zone_names = [''us-east-1a'', ''us-east-1b''],
             hosted_zones = [(''example.com'', ''Z1'')],
             certificates = [(''example.com'', ''arn:cert'')]\<rparr> b3 ''example.com'' tg s3 of
       Inl e \<Rightarrow> False
     | Inr (ls, b4, s4) \<Rightarrow>
    (case Repository_init ''ind-repository'' s4 of
       (repo, s4a) \<Rightarrow>
    (case Image_init ''ind-image'' (repo_url repo) (DOCKER_BUILD_SOURCE conf) s4a of
       (img, s4b) \<Rightarrow>
    (case Cluster_init ''ind'' (vpc_id vpc) ''cluster-main'' (ecs_ec2 conf)
            (max_instance_count (ecs conf)) (min_instance_count (ecs conf))
            (VList (public_subnet_ids vpc)) None s4b of
       (cl, s5) \<Rightarrow>
    (case Task_init ''ind'' (task_family_name (ecs conf)) (container_name (ecs conf))
            (image_uri img) None s5 of
       (tk, s6) \<Rightarrow>
    (case Service_init ''ind'' (VOut (rid (cl_cluster cl)) ''arn'')
            (VOut (rid (task_definition tk)) ''arn'') (VOut (rid tg) ''arn'')
            (VList [VOut (rid (cl_security_group cl)) ''id'']) (container_name (ecs conf))
            (VList (public_subnet_ids vpc)) (desired_task_count (ecs conf)) None s6 of
       (sv, s7) \<Rightarrow>
    (case RDS_init ''ind'' (rds conf) (vpc_id vpc) (VList (private_subnet_ids vpc))
            (VList [VOut (rid (cl_security_group cl)) ''id'']) None s7 of
       (db, s8) \<Rightarrow>
         length s8 = 34 \<and> distinct (map rname s8) \<and>
         take 3 (map rname (filter (\<lambda>r. rtype r \<noteq> ''ind:rds:RDS'') s8)) =
           [''ind-vpc'', ''ind-lb'', ''ind-lb-sg''] \<and>
         (case add_target_group b4 (VStr ''/second'') s8 of
            (g, c', t') \<Rightarrow> rname g = rname tg \<and> \<not> distinct (map rname t'))))))))))))))"
proof -
  let ?cfg = "[(''lb'', ''{\"domain_name\": \"example.com\"}'',
                Some (VDict [(''domain_name'', VStr ''example.com'')]))]"
  let ?prov = "\<lparr>available_zone_names = [''us-east-1a'', ''us-east-1b''],
                hosted_zones = [(''example.com'', ''Z1'')],
                certificates = [(''example.com'', ''arn:cert'')]\<rparr>"
  obtain conf where c: "load_config ?cfg = Inr conf"
    and n: "NUMBER_OF_AVAILABILITY_ZONES conf = VInt 2"
    and p: "RESOURCE_NAME_PREFIX conf = VStr ''ind''"
    by (simp add: load_config_def py_abspath_def load_ecs_def load_lb_def load_ecs_ec2_def
          load_rds_def ECSConfig_init_def LBConfig_init_def EC2Config_init_def
          RDSConfig_init_def get_object_def get_def kwargs_of_def unexpected_kwargs_def
          field_or_def ECSConfig_fields_def LBConfig_fields_def EC2Config_fields_def
          RDSConfig_fields_def)
  obtain vpc s0 where h0: "main_program ?prov conf [] = Inr (vpc, s0)"
    using n p
    by (simp add: main_program_def py_slice_to_def slice_to_int_def py_concat_def
          Vpc_init_def register_def Let_def)
  obtain b1 s1 where h1:
    "LoadBalancer_init ''ind'' (vpc_id vpc) (VList (public_subnet_ids vpc)) None s0 = (b1, s1)"
    by (cases "LoadBalancer_init ''ind'' (vpc_id vpc) (VList (public_subnet_ids vpc)) None s0")
  obtain b2 s2 where h2: "add_dns_record ?prov b1 ''example.com'' s1 = Inr (b2, s2)"
    by (simp add: add_dns_record_def register_def Let_def)
  obtain tg b3 s3 where h3: "add_target_group b2 (health_check_path (lb conf)) s2 = (tg, b3, s3)"
    by (cases "add_target_group b2 (health_check_path (lb conf)) s2")
  obtain ls b4 s4 where h4: "add_listener ?prov b3 ''example.com'' tg s3 = Inr (ls, b4, s4)"
    by (simp add: add_listener_def register_def Let_def)
  obtain repo s4a where k1: "Repository_init ''ind-repository'' s4 = (repo, s4a)"
    by (cases "Repository_init ''ind-repository'' s4")
  obtain img s4b where k2:
    "Image_init ''ind-image'' (repo_url repo) (DOCKER_BUILD_SOURCE conf) s4a = (img, s4b)"
    by (cases "Image_init ''ind-image'' (repo_url repo) (DOCKER_BUILD_SOURCE conf) s4a")
  from k1 have e1: "Repository_init (''ind'' @ ''-repository'') s4 = (repo, s4a)"
    by simp
  from k2 have e2:
    "Image_init (''ind'' @ ''-image'') (repo_url repo) (DOCKER_BUILD_SOURCE conf) s4a
       = (img, s4b)"
    by simp
  obtain cl s5 where h5:
    "Cluster_init ''ind'' (vpc_id vpc) ''cluster-main'' (ecs_ec2 conf)
       (max_instance_count (ecs conf)) (min_instance_count (ecs conf))
       (VList (public_subnet_ids vpc)) None s4b = (cl, s5)"
    by (cases "Cluster_init ''ind'' (vpc_id vpc) ''cluster-main'' (ecs_ec2 conf)
       (max_instance_count (ecs conf)) (min_instance_count (ecs conf))
       (VList (public_subnet_ids vpc)) None s4b")
  obtain tk s6 where h6:
    "Task_init ''ind'' (task_family_name (ecs conf)) (container_name (ecs conf))
       (image_uri img) None s5 = (tk, s6)"
    by (cases "Task_init ''ind'' (task_family_name (ecs conf)) (container_name (ecs conf))
       (image_uri img) None s5")
  obtain sv s7 where h7:
    "Service_init ''ind'' (VOut (rid (cl_cluster cl)) ''arn'')
       (VOut (rid (task_definition tk)) ''arn'') (VOut (rid tg) ''arn'')
       (VList [VOut (rid (cl_security_group cl)) ''id'']) (container_name (ecs conf))
       (VList (public_subnet_ids vpc)) (desired_task_count (ecs conf)) None s6 = (sv, s7)"
    by (cases "Service_init ''ind'' (VOut (rid (cl_cluster cl)) ''arn'')
       (VOut (rid (task_definition tk)) ''arn'') (VOut (rid tg) ''arn'')
       (VList [VOut (rid (cl_security_group cl)) ''id'']) (container_name (ecs conf))
       (VList (public_subnet_ids vpc)) (desired_task_count (ecs conf)) None s6")
  obtain db s8 where h8:
    "RDS_init ''ind'' (rds conf) (vpc_id vpc) (VList (private_subnet_ids vpc))
       (VList [VOut (rid (cl_security_group cl)) ''id'']) None s7 = (db, s8)"
    by (cases "RDS_init ''ind'' (rds conf) (vpc_id vpc) (VList (private_subnet_ids vpc))
       (VList [VOut (rid (cl_security_group cl)) ''id'']) None s7")
  obtain g c' t' where h9: "add_target_group b4 (VStr ''/second'') s8 = (g, c', t')"
    by (cases "add_target_group b4 (VStr ''/second'') s8")
  have len: "length s8 = length (map (\<lambda>r. (rtype r, rname r)) s8)"
    by simp
  have l34: "length s8 = 34"
    unfolding len
    by (simp add: decls_main_program [OF h0 p] decls_LoadBalancer_init [OF h1]
          decls_add_dns_record [OF h2] decls_add_target_group [OF h3]
          decls_add_listener [OF h4] decls_Repository_init [OF e1] decls_Image_init [OF e2]
          decls_Cluster_init [OF h5] decls_Task_init [OF h6]
          decls_Service_init [OF h7] decls_RDS_init [OF h8])
  note main = stack_names_prefixed_distinct_single_use [OF c p h0 h1 h2 h3 h4 e1 e2 h5 h6 h7 h8]
  from main have "distinct (map rname s8)"
    and "take 3 (map rname (filter (\<lambda>r. rtype r \<noteq> ''ind:rds:RDS'') s8)) =
           [''ind-vpc'', ''ind-lb'', ''ind-lb-sg'']"
    by simp_all
  moreover from main h9 have "rname g = rname tg \<and> \<not> distinct (map rname t')"
    by blast
  ultimately show ?thesis
    using l34 by (simp add: c p h0 h1 h2 h3 h4 k1 k2 h5 h6 h7 h8 h9)
qed

end
